theory Spec2Isabelle
  imports Main "HOL-Library.Sublist" "HOL-Library.Multiset"
begin

section \<open>soci-wrapper: the build-and-publish pipeline of main.go\<close>

text \<open>
  The program is one Go file. Its functions are embedded one by one, under their own
  names. Everything the program does to the outside (the registry, the SOCI library, the
  filesystem, the logger, standard output) is an entry appended to a trace, and what the
  outside answers is read from an environment \<open>env\<close>: one field per collaborator call,
  a function of the arguments the program passes. A Go \<open>error\<close> is a value of type
  \<open>error\<close>; \<open>nil\<close> is \<open>None\<close>. A runtime panic is the result \<open>Panics\<close>.
\<close>

subsection \<open>Values\<close>

datatype error = Error string

datatype 'a outcome = Returns 'a | Panics string

type_synonym "context" = "(string \<times> string) list"

definition context_TODO :: "context" where
  "context_TODO = []"

definition context_WithValue :: "context \<Rightarrow> string \<Rightarrow> string \<Rightarrow> context" where
  "context_WithValue ctx key val = (key, val) # ctx"

record descriptor =
  MediaType :: string
  Digest :: string
  Size :: int

record index_descriptor_info =
  Descriptor :: descriptor
  CreatedAt :: int

record image =
  Name :: string
  Target :: descriptor

type_synonym platform = string

datatype registry = Registry string
datatype soci_store = SociStore string
datatype content_store = ContentStore string
datatype artifacts_db = ArtifactsDb string

datatype fmtarg = ArgInt int | ArgStr string | ArgErr error

datatype message = Plain string | Sprintf string "fmtarg list"

datatype level = Info | Warn | Err

datatype event =
    Log level "context" message "error option"
  | Println string
  | CalculateFreeSpace string
  | MkdirTemp string string
  | RemoveAll string
  | RegistryInit string
  | ValidateImageManifest registry string string
  | OciNewWithContext string
  | LocalNewStore string
  | SociNewDB string
  | Pull registry string soci_store string
  | NewIndexBuilder content_store soci_store artifacts_db platform
  | Build image
  | GetIndexDescriptorCollection content_store artifacts_db image "platform list"
  | Push registry soci_store descriptor string

text \<open>
  The world: the directories that exist, as far as the program itself creates and removes
  them, and the trace of what it has done, oldest first.
\<close>

record world =
  dirs :: "string set"
  trace :: "event list"

text \<open>
  The environment: what each call of a library or of the packages \<open>utils/fs\<close>,
  \<open>utils/log\<close> and \<open>utils/registry\<close> (which the program imports) answers.
  \<open>sort_Slice_res\<close> is the order in which \<open>sort.Slice\<close> leaves the slice for a given
  \<open>less\<close>; the library does not promise stability, so no algorithm is fixed here.
\<close>

record env =
  CalculateFreeSpace_res :: "string \<Rightarrow> int"
  MkdirTemp_res :: "string \<Rightarrow> string \<Rightarrow> error + string"
  RemoveAll_res :: "string \<Rightarrow> error option"
  RegistryInit_res :: "string \<Rightarrow> error option"
  ValidateImageManifest_res :: "registry \<Rightarrow> string \<Rightarrow> string \<Rightarrow> error option"
  Pull_res :: "registry \<Rightarrow> string \<Rightarrow> soci_store \<Rightarrow> string \<Rightarrow> error + descriptor"
  Push_res :: "registry \<Rightarrow> soci_store \<Rightarrow> descriptor \<Rightarrow> string \<Rightarrow> error option"
  OciNewWithContext_res :: "string \<Rightarrow> error option"
  LocalNewStore_res :: "string \<Rightarrow> error option"
  SociNewDB_res :: "string \<Rightarrow> error option"
  NewIndexBuilder_res :: "content_store \<Rightarrow> soci_store \<Rightarrow> artifacts_db \<Rightarrow> error option"
  Build_res :: "image \<Rightarrow> error option"
  GetIndexDescriptorCollection_res ::
    "content_store \<Rightarrow> artifacts_db \<Rightarrow> image \<Rightarrow> platform list \<Rightarrow> error + index_descriptor_info list"
  DefaultSpec_res :: platform
  sort_Slice_res ::
    "(index_descriptor_info \<Rightarrow> index_descriptor_info \<Rightarrow> bool) \<Rightarrow>
      index_descriptor_info list \<Rightarrow> index_descriptor_info list"

definition emit :: "event \<Rightarrow> world \<Rightarrow> world" where
  "emit e w = w\<lparr>trace := trace w @ [e]\<rparr>"

subsection \<open>Library calls\<close>

definition log_Info :: "context \<Rightarrow> message \<Rightarrow> world \<Rightarrow> world" where
  "log_Info ctx msg w = emit (Log Info ctx msg None) w"

definition log_Warn :: "context \<Rightarrow> message \<Rightarrow> world \<Rightarrow> world" where
  "log_Warn ctx msg w = emit (Log Warn ctx msg None) w"

definition log_Error :: "context \<Rightarrow> message \<Rightarrow> error \<Rightarrow> world \<Rightarrow> world" where
  "log_Error ctx msg err w = emit (Log Err ctx msg (Some err)) w"

definition fmt_Println :: "string \<Rightarrow> world \<Rightarrow> world" where
  "fmt_Println s w = emit (Println s) w"

text \<open>\<open>strings.HasPrefix(s, prefix)\<close>: \<open>len(s) >= len(prefix) && s[:len(prefix)] == prefix\<close>.\<close>

definition strings_HasPrefix :: "string \<Rightarrow> string \<Rightarrow> bool" where
  "strings_HasPrefix s p = (length p \<le> length s \<and> take (length p) s = p)"

text \<open>
  \<open>path.Join\<close> of two elements: empty elements are dropped and the rest is joined with a
  slash. The cleaning of the result (\<open>path.Clean\<close>) is left out: no property below reads
  the joined path.
\<close>

definition path_Join :: "string \<Rightarrow> string \<Rightarrow> string" where
  "path_Join a b = (if a = [] then b else if b = [] then a else a @ ''/'' @ b)"

text \<open>
  \<open>os.MkdirTemp(dir, pattern)\<close> returns the new directory's name and a nil error, or the
  empty name and the error. \<open>os.RemoveAll(path)\<close> returns nil when the path does not
  exist; otherwise it removes the path and everything below it, or it fails with an error
  and the path is still there.
\<close>

definition os_MkdirTemp :: "env \<Rightarrow> string \<Rightarrow> string \<Rightarrow> world \<Rightarrow> (string \<times> error option) \<times> world" where
  "os_MkdirTemp env dir pattern w =
    (let w1 = emit (MkdirTemp dir pattern) w in
     case MkdirTemp_res env dir pattern of
       Inl err \<Rightarrow> (([], Some err), w1)
     | Inr name \<Rightarrow> ((name, None), w1\<lparr>dirs := insert name (dirs w1)\<rparr>))"

definition below :: "string \<Rightarrow> string \<Rightarrow> bool" where
  "below root p = (p = root \<or> prefix (root @ ''/'') p)"

definition os_RemoveAll :: "env \<Rightarrow> string \<Rightarrow> world \<Rightarrow> error option \<times> world" where
  "os_RemoveAll env p w =
    (let w1 = emit (RemoveAll p) w in
     if p \<notin> dirs w1 then (None, w1)
     else case RemoveAll_res env p of
       Some err \<Rightarrow> (Some err, w1)
     | None \<Rightarrow> (None, w1\<lparr>dirs := Set.filter (\<lambda>d. \<not> below p d) (dirs w1)\<rparr>))"

text \<open>
  A slice read \<open>xs[i]\<close>: Go checks the index and panics when it is out of range.
\<close>

definition slice_index :: "'a list \<Rightarrow> int \<Rightarrow> 'a outcome" where
  "slice_index xs i =
    (if 0 \<le> i \<and> i < int (length xs) then Returns (xs ! nat i)
     else Panics ''runtime error: index out of range'')"

subsection \<open>The program\<close>

definition artifactsStoreName :: string where
  "artifactsStoreName = ''store''"

definition artifactsDbName :: string where
  "artifactsDbName = ''artifacts.db''"

definition buildEcrRegistryUrl :: "string \<Rightarrow> string \<Rightarrow> string" where
  "buildEcrRegistryUrl region account =
    (let awsDomain = ''.amazonaws.com'';
         awsDomain = (if strings_HasPrefix region ''cn'' then ''.amazonaws.com.cn'' else awsDomain)
     in account @ ''.dkr.ecr.'' @ region @ awsDomain)"

definition createTempDir :: "env \<Rightarrow> context \<Rightarrow> world \<Rightarrow> (string \<times> error option) \<times> world" where
  "createTempDir env ctx w =
    (let w1 = emit (CalculateFreeSpace ''/tmp'') w;
         freeSpace = CalculateFreeSpace_res env ''/tmp'';
         w2 = log_Info ctx (Sprintf ''There are %d bytes of free space in /tmp directory'' [ArgInt freeSpace]) w1;
         w3 = log_Info ctx (Plain ''Creating a directory to store images and SOCI artifacts'') w2
     in os_MkdirTemp env ''/tmp'' ''TODO'' w3)"

definition cleanUp :: "env \<Rightarrow> context \<Rightarrow> string \<Rightarrow> world \<Rightarrow> world" where
  "cleanUp env ctx dataDir w =
    (let w1 = log_Info ctx (Sprintf ''Removing all files in %s'' [ArgStr dataDir]) w in
     case os_RemoveAll env dataDir w1 of
       (Some err, w2) \<Rightarrow> log_Error ctx (Plain ''Clean up error'') err w2
     | (None, w2) \<Rightarrow> w2)"

definition initContainerdStore :: "env \<Rightarrow> string \<Rightarrow> world \<Rightarrow> (error + content_store) \<times> world" where
  "initContainerdStore env dataDir w =
    (let p = path_Join dataDir artifactsStoreName;
         w1 = emit (LocalNewStore p) w in
     case LocalNewStore_res env p of
       Some err \<Rightarrow> (Inl err, w1)
     | None \<Rightarrow> (Inr (ContentStore p), w1))"

definition initSociStore :: "env \<Rightarrow> context \<Rightarrow> string \<Rightarrow> world \<Rightarrow> (error + soci_store) \<times> world" where
  "initSociStore env ctx dataDir w =
    (let p = path_Join dataDir artifactsStoreName;
         w1 = emit (OciNewWithContext p) w in
     case OciNewWithContext_res env p of
       Some err \<Rightarrow> (Inl err, w1)
     | None \<Rightarrow> (Inr (SociStore p), w1))"

definition initSociArtifactsDb :: "env \<Rightarrow> string \<Rightarrow> world \<Rightarrow> (error + artifacts_db) \<times> world" where
  "initSociArtifactsDb env dataDir w =
    (let artifactsDbPath = path_Join dataDir artifactsDbName;
         w1 = emit (SociNewDB artifactsDbPath) w in
     case SociNewDB_res env artifactsDbPath of
       Some err \<Rightarrow> (Inl err, w1)
     | None \<Rightarrow> (Inr (ArtifactsDb artifactsDbPath), w1))"

text \<open>
  The calls into the SOCI library and into \<open>utils/registry\<close>: each leaves its entry in
  the trace and answers what the environment says. \<open>time.Time.Before\<close> compares two
  instants; an instant is a number of nanoseconds.
\<close>

definition registryutils_Init :: "env \<Rightarrow> context \<Rightarrow> string \<Rightarrow> world \<Rightarrow> (error + registry) \<times> world" where
  "registryutils_Init env ctx registryUrl w =
    (let w1 = emit (RegistryInit registryUrl) w in
     case RegistryInit_res env registryUrl of
       Some err \<Rightarrow> (Inl err, w1)
     | None \<Rightarrow> (Inr (Registry registryUrl), w1))"

definition registry_ValidateImageManifest ::
    "env \<Rightarrow> registry \<Rightarrow> context \<Rightarrow> string \<Rightarrow> string \<Rightarrow> world \<Rightarrow> error option \<times> world" where
  "registry_ValidateImageManifest env registry ctx repo digest w =
    (ValidateImageManifest_res env registry repo digest,
     emit (ValidateImageManifest registry repo digest) w)"

definition registry_Pull ::
    "env \<Rightarrow> registry \<Rightarrow> context \<Rightarrow> string \<Rightarrow> soci_store \<Rightarrow> string \<Rightarrow> world \<Rightarrow> (error + descriptor) \<times> world" where
  "registry_Pull env registry ctx repo sociStore digest w =
    (Pull_res env registry repo sociStore digest, emit (Pull registry repo sociStore digest) w)"

definition registry_Push ::
    "env \<Rightarrow> registry \<Rightarrow> context \<Rightarrow> soci_store \<Rightarrow> descriptor \<Rightarrow> string \<Rightarrow> world \<Rightarrow> error option \<times> world" where
  "registry_Push env registry ctx sociStore indexDesc repo w =
    (Push_res env registry sociStore indexDesc repo, emit (Push registry sociStore indexDesc repo) w)"

definition soci_NewIndexBuilder ::
    "env \<Rightarrow> content_store \<Rightarrow> soci_store \<Rightarrow> artifacts_db \<Rightarrow> platform \<Rightarrow> world \<Rightarrow> error option \<times> world" where
  "soci_NewIndexBuilder env containerdStore sociStore artifactsDb platform w =
    (NewIndexBuilder_res env containerdStore sociStore artifactsDb,
     emit (NewIndexBuilder containerdStore sociStore artifactsDb platform) w)"

definition builder_Build :: "env \<Rightarrow> context \<Rightarrow> image \<Rightarrow> world \<Rightarrow> error option \<times> world" where
  "builder_Build env ctx img w = (Build_res env img, emit (Build img) w)"

definition soci_GetIndexDescriptorCollection ::
    "env \<Rightarrow> context \<Rightarrow> content_store \<Rightarrow> artifacts_db \<Rightarrow> image \<Rightarrow> platform list \<Rightarrow> world \<Rightarrow>
      (error + index_descriptor_info list) \<times> world" where
  "soci_GetIndexDescriptorCollection env ctx containerdStore artifactsDb img ps w =
    (GetIndexDescriptorCollection_res env containerdStore artifactsDb img ps,
     emit (GetIndexDescriptorCollection containerdStore artifactsDb img ps) w)"

definition time_Before :: "int \<Rightarrow> int \<Rightarrow> bool" where
  "time_Before t u = (t < u)"

definition sort_Slice ::
    "env \<Rightarrow> (index_descriptor_info \<Rightarrow> index_descriptor_info \<Rightarrow> bool) \<Rightarrow>
      index_descriptor_info list \<Rightarrow> index_descriptor_info list" where
  "sort_Slice env less_fn xs = sort_Slice_res env less_fn xs"

definition buildIndex ::
    "env \<Rightarrow> context \<Rightarrow> string \<Rightarrow> soci_store \<Rightarrow> image \<Rightarrow> world \<Rightarrow> (error + descriptor) outcome \<times> world" where
  "buildIndex env ctx dataDir sociStore img w =
    (let w1 = log_Info ctx (Plain ''Building SOCI index'') w;
         platform = DefaultSpec_res env in
     case initSociArtifactsDb env dataDir w1 of
       (Inl err, w2) \<Rightarrow> (Returns (Inl err), w2)
     | (Inr artifactsDb, w2) \<Rightarrow>
     (case initContainerdStore env dataDir w2 of
       (Inl err, w3) \<Rightarrow> (Returns (Inl err), w3)
     | (Inr containerdStore, w3) \<Rightarrow>
     (case soci_NewIndexBuilder env containerdStore sociStore artifactsDb platform w3 of
       (Some err, w4) \<Rightarrow> (Returns (Inl err), w4)
     | (None, w4) \<Rightarrow>
     (case builder_Build env ctx img w4 of
       (Some err, w5) \<Rightarrow> (Returns (Inl err), w5)
     | (None, w5) \<Rightarrow>
     (case soci_GetIndexDescriptorCollection env ctx containerdStore artifactsDb img [platform] w5 of
       (Inl err, w6) \<Rightarrow> (Returns (Inl err), w6)
     | (Inr indexDescriptorInfos, w6) \<Rightarrow>
       if length indexDescriptorInfos = 0
       then (Returns (Inl (Error ''No SOCI indices found in OCI store'')), w6)
       else
         let indexDescriptorInfos =
               sort_Slice env (\<lambda>i j. time_Before (CreatedAt i) (CreatedAt j)) indexDescriptorInfos
         in (case slice_index indexDescriptorInfos (int (length indexDescriptorInfos) - 1) of
               Panics p \<Rightarrow> (Panics p, w6)
             | Returns info \<Rightarrow> (Returns (Inr (Descriptor info)), w6)))))))"

definition lambdaError :: "context \<Rightarrow> string \<Rightarrow> error \<Rightarrow> world \<Rightarrow> (string \<times> error option) \<times> world" where
  "lambdaError ctx msg err w = ((msg, Some err), log_Error ctx (Plain msg) err w)"

definition returns :: "'a \<times> world \<Rightarrow> 'a outcome \<times> world" where
  "returns rw = (Returns (fst rw), snd rw)"

text \<open>
  \<open>process\<close> in two parts. \<open>process_deferred\<close> is the body after
  \<open>defer cleanUp(ctx, dataDir)\<close>; \<open>process\<close> runs the deferred call when that body
  leaves, by a return or by a panic, with the \<open>ctx\<close> and \<open>dataDir\<close> the \<open>defer\<close>
  statement evaluated.
\<close>

definition process_deferred ::
    "env \<Rightarrow> context \<Rightarrow> registry \<Rightarrow> string \<Rightarrow> string \<Rightarrow> string \<Rightarrow> world \<Rightarrow>
      (string \<times> error option) outcome \<times> world" where
  "process_deferred env ctx registry repo digest dataDir w =
    (case initSociStore env ctx dataDir w of
       (Inl err, w1) \<Rightarrow> returns (lambdaError ctx ''OCI storage initialization error'' err w1)
     | (Inr sociStore, w1) \<Rightarrow>
     (case registry_Pull env registry ctx repo sociStore digest w1 of
       (Inl err, w2) \<Rightarrow> returns (lambdaError ctx ''Image pull error'' err w2)
     | (Inr desc, w2) \<Rightarrow>
       let img = \<lparr>Name = repo @ ''@'' @ digest, Target = desc\<rparr> in
       (case buildIndex env ctx dataDir sociStore img w2 of
          (Panics p, w3) \<Rightarrow> (Panics p, w3)
        | (Returns (Inl err), w3) \<Rightarrow> returns (lambdaError ctx ''SOCI index build error'' err w3)
        | (Returns (Inr indexDescriptor), w3) \<Rightarrow>
          let ctx = context_WithValue ctx ''SOCIIndexDigest'' (Digest indexDescriptor) in
          (case registry_Push env registry ctx sociStore indexDescriptor repo w3 of
             (Some err, w4) \<Rightarrow> returns (lambdaError ctx ''SOCI index push error'' err w4)
           | (None, w4) \<Rightarrow>
               (Returns (''Successfully built and pushed SOCI index'', None),
                log_Info ctx (Plain ''Successfully built and pushed SOCI index'') w4)))))"

definition process ::
    "env \<Rightarrow> context \<Rightarrow> string \<Rightarrow> string \<Rightarrow> string \<Rightarrow> string \<Rightarrow> world \<Rightarrow>
      (string \<times> error option) outcome \<times> world" where
  "process env ctx0 repo digest region account w =
    (let registryUrl = buildEcrRegistryUrl region account;
         ctx = context_WithValue ctx0 ''RegistryURL'' registryUrl in
     case registryutils_Init env ctx registryUrl w of
       (Inl err, w1) \<Rightarrow> returns (lambdaError ctx ''Remote registry initialization error'' err w1)
     | (Inr registry, w1) \<Rightarrow>
     (case registry_ValidateImageManifest env registry ctx repo digest w1 of
       (Some err, w2) \<Rightarrow>
         (Returns (''Exited early due to manifest validation error'', None),
          log_Warn ctx (Sprintf ''Image manifest validation error: %v'' [ArgErr err]) w2)
     | (None, w2) \<Rightarrow>
     (case createTempDir env ctx w2 of
       ((dataDir, err), w3) \<Rightarrow>
         let w4 = log_Info ctx (Sprintf ''The path to the dataDir: %s'' [ArgStr dataDir]) w3 in
         (case err of
            Some e \<Rightarrow> returns (lambdaError ctx ''Directory create error'' e w4)
          | None \<Rightarrow>
            (case process_deferred env ctx registry repo digest dataDir w4 of
               (r, w5) \<Rightarrow> (r, cleanUp env ctx dataDir w5))))))"

text \<open>
  \<open>main\<close> reads \<open>os.Args\<close> (the program's name first). The process ends by
  \<open>os.Exit\<close>, by \<open>main\<close> returning (status 0) or by a panic nobody recovers (the Go
  runtime then exits with status 2).
\<close>

datatype exit = Exited int | Panicked string

fun exit_status :: "exit \<Rightarrow> int" where
  "exit_status (Exited n) = n"
| "exit_status (Panicked p) = 2"

definition usage :: string where
  "usage = ''Usage: soci-wrapper REPOSITORY_NAME IMAGE_DIGEST AWS_REGION AWS_ACCOUNT''"

definition main :: "env \<Rightarrow> string list \<Rightarrow> world \<Rightarrow> exit \<times> world" where
  "main env Args w =
    (if int (length Args) < 4 then (Exited 1, fmt_Println usage w)
     else
       case slice_index Args 1 of Panics p \<Rightarrow> (Panicked p, w) | Returns repo \<Rightarrow>
       (case slice_index Args 2 of Panics p \<Rightarrow> (Panicked p, w) | Returns digest \<Rightarrow>
       (case slice_index Args 3 of Panics p \<Rightarrow> (Panicked p, w) | Returns region \<Rightarrow>
       (case slice_index Args 4 of Panics p \<Rightarrow> (Panicked p, w) | Returns account \<Rightarrow>
       (case process env context_TODO repo digest region account w of
          (Panics p, w1) \<Rightarrow> (Panicked p, w1)
        | (Returns r, w1) \<Rightarrow> (Exited 0, w1))))))"

subsection \<open>Reading the trace\<close>

text \<open>
  The events a run adds to the trace, and two projections of a trace: the storage and pull
  steps it holds, and the directories it removed.
\<close>

definition new_events :: "world \<Rightarrow> world \<Rightarrow> event list" where
  "new_events w w' = drop (length (trace w)) (trace w')"

datatype stage = ContentStoreInit | ArtifactStoreInit | MetadataDbInit | PullImage

fun stage_of :: "event \<Rightarrow> stage list" where
  "stage_of (LocalNewStore p) = [ContentStoreInit]"
| "stage_of (OciNewWithContext p) = [ArtifactStoreInit]"
| "stage_of (SociNewDB p) = [MetadataDbInit]"
| "stage_of (Pull r repo s d) = [PullImage]"
| "stage_of e = []"

definition stages :: "event list \<Rightarrow> stage list" where
  "stages t = concat (map stage_of t)"

definition storage_inits :: "event list \<Rightarrow> stage list" where
  "storage_inits t = filter (\<lambda>s. s \<noteq> PullImage) (stages t)"

fun removal_of :: "event \<Rightarrow> string list" where
  "removal_of (RemoveAll p) = [p]"
| "removal_of e = []"

definition removals :: "event list \<Rightarrow> string list" where
  "removals t = concat (map removal_of t)"

subsection \<open>What \<open>sort.Slice\<close> promises\<close>

text \<open>
  \<open>sort.Slice(x, less)\<close> reorders \<open>x\<close> in place so that no element is \<open>less\<close> than one
  before it. \<open>sorts less_fn xs ys\<close>: \<open>ys\<close> is such a reordering of \<open>xs\<close>.
\<close>

definition sorts :: "('a \<Rightarrow> 'a \<Rightarrow> bool) \<Rightarrow> 'a list \<Rightarrow> 'a list \<Rightarrow> bool" where
  "sorts less_fn xs ys = (mset ys = mset xs \<and> sorted_wrt (\<lambda>a b. \<not> less_fn b a) ys)"

subsection \<open>A sample environment\<close>

text \<open>
  An environment in which every collaborator succeeds, to run the program on: the
  builder has recorded two indices, and \<open>sort.Slice\<close> is an insertion sort.
\<close>

fun insert_by :: "('a \<Rightarrow> 'a \<Rightarrow> bool) \<Rightarrow> 'a \<Rightarrow> 'a list \<Rightarrow> 'a list" where
  "insert_by less_fn x [] = [x]"
| "insert_by less_fn x (y # ys) =
     (if less_fn x y then x # y # ys else y # insert_by less_fn x ys)"

definition insertion_sort :: "('a \<Rightarrow> 'a \<Rightarrow> bool) \<Rightarrow> 'a list \<Rightarrow> 'a list" where
  "insertion_sort less_fn xs = foldr (insert_by less_fn) xs []"

definition world0 :: world where
  "world0 = \<lparr>dirs = {}, trace = []\<rparr>"

definition index_new :: index_descriptor_info where
  "index_new = \<lparr>Descriptor = \<lparr>MediaType = ''application/vnd.amazon.soci.index.v1+json'',
      Digest = ''sha256:bb'', Size = 200\<rparr>, CreatedAt = 1700000002\<rparr>"

definition index_old :: index_descriptor_info where
  "index_old = \<lparr>Descriptor = \<lparr>MediaType = ''application/vnd.amazon.soci.index.v1+json'',
      Digest = ''sha256:aa'', Size = 100\<rparr>, CreatedAt = 1700000001\<rparr>"

definition env_ok :: env where
  "env_ok = \<lparr>
     CalculateFreeSpace_res = (\<lambda>p. 512000000),
     MkdirTemp_res = (\<lambda>dir pattern. Inr (dir @ ''/'' @ pattern @ ''1'')),
     RemoveAll_res = (\<lambda>p. None),
     RegistryInit_res = (\<lambda>url. None),
     ValidateImageManifest_res = (\<lambda>r repo digest. None),
     Pull_res = (\<lambda>r repo s digest.
        Inr \<lparr>MediaType = ''application/vnd.oci.image.manifest.v1+json'', Digest = digest, Size = 1024\<rparr>),
     Push_res = (\<lambda>r s d repo. None),
     OciNewWithContext_res = (\<lambda>p. None),
     LocalNewStore_res = (\<lambda>p. None),
     SociNewDB_res = (\<lambda>p. None),
     NewIndexBuilder_res = (\<lambda>c s d. None),
     Build_res = (\<lambda>i. None),
     GetIndexDescriptorCollection_res = (\<lambda>c d i ps. Inr [index_new, index_old]),
     DefaultSpec_res = ''linux/amd64'',
     sort_Slice_res = insertion_sort\<rparr>"

text \<open>The same environment with a removal that fails, and with a metadata database that fails.\<close>

definition env_remove_fails :: env where
  "env_remove_fails = env_ok\<lparr>RemoveAll_res := (\<lambda>p. Some (Error ''permission denied''))\<rparr>"

definition env_db_fails :: env where
  "env_db_fails = env_ok\<lparr>SociNewDB_res := (\<lambda>p. Some (Error ''no space left on device''))\<rparr>"

text \<open>The same environment with a push that fails, and with a builder that records no index.\<close>

definition env_push_fails :: env where
  "env_push_fails = env_ok\<lparr>Push_res := (\<lambda>r s d repo. Some (Error ''403 Forbidden''))\<rparr>"

definition env_no_index :: env where
  "env_no_index = env_ok\<lparr>GetIndexDescriptorCollection_res := (\<lambda>c d i ps. Inr [])\<rparr>"

section \<open>Properties\<close>

lemmas lib_defs = emit_def log_Info_def log_Warn_def log_Error_def fmt_Println_def
  os_MkdirTemp_def os_RemoveAll_def registryutils_Init_def registry_ValidateImageManifest_def
  registry_Pull_def registry_Push_def soci_NewIndexBuilder_def builder_Build_def
  soci_GetIndexDescriptorCollection_def sort_Slice_def

lemmas prog_defs = process_def process_deferred_def buildIndex_def createTempDir_def cleanUp_def
  initSociStore_def initContainerdStore_def initSociArtifactsDb_def lambdaError_def returns_def
  context_WithValue_def time_Before_def

lemmas eval_defs = prog_defs lib_defs Let_def env_ok_def world0_def context_TODO_def new_events_def
  buildEcrRegistryUrl_def strings_HasPrefix_def path_Join_def artifactsStoreName_def
  artifactsDbName_def insertion_sort_def slice_index_def index_new_def index_old_def
  env_remove_fails_def env_db_fails_def storage_inits_def


subsection \<open>What the functions return and what they leave in the world\<close>

lemma stages_simps [simp]:
  "stages [] = []" "stages (e # t) = stage_of e @ stages t" "stages (xs @ ys) = stages xs @ stages ys"
  by (simp_all add: stages_def)

lemma removals_simps [simp]:
  "removals [] = []" "removals (e # t) = removal_of e @ removals t"
  "removals (xs @ ys) = removals xs @ removals ys"
  by (simp_all add: removals_def)

lemma new_eventsI: "trace w' = trace w @ es \<Longrightarrow> new_events w w' = es"
  by (simp add: new_events_def)

lemma fst_buildIndex:
  "fst (buildIndex env ctx dataDir sociStore img w) =
    (let dbp = path_Join dataDir artifactsDbName; p = path_Join dataDir artifactsStoreName in
     case SociNewDB_res env dbp of Some e \<Rightarrow> Returns (Inl e) | None \<Rightarrow>
     (case LocalNewStore_res env p of Some e \<Rightarrow> Returns (Inl e) | None \<Rightarrow>
     (case NewIndexBuilder_res env (ContentStore p) sociStore (ArtifactsDb dbp) of Some e \<Rightarrow> Returns (Inl e) | None \<Rightarrow>
     (case Build_res env img of Some e \<Rightarrow> Returns (Inl e) | None \<Rightarrow>
     (case GetIndexDescriptorCollection_res env (ContentStore p) (ArtifactsDb dbp) img [DefaultSpec_res env] of
        Inl e \<Rightarrow> Returns (Inl e)
      | Inr infos \<Rightarrow>
         if infos = [] then Returns (Inl (Error ''No SOCI indices found in OCI store''))
         else (let s = sort_Slice_res env (\<lambda>i j. time_Before (CreatedAt i) (CreatedAt j)) infos in
           case slice_index s (int (length s) - 1) of Panics p \<Rightarrow> Panics p
            | Returns info \<Rightarrow> Returns (Inr (Descriptor info))))))))"
  by (simp add: buildIndex_def initSociArtifactsDb_def initContainerdStore_def lib_defs Let_def
      split: option.splits sum.splits outcome.splits)

lemma buildIndex_dirs: "dirs (snd (buildIndex env ctx dataDir st img w)) = dirs w"
  by (simp add: buildIndex_def initSociArtifactsDb_def initContainerdStore_def lib_defs Let_def
      split: option.splits sum.splits outcome.splits)

lemma buildIndex_trace:
  "\<exists>es. trace (snd (buildIndex env ctx dataDir st img w)) = trace w @ es \<and> removals es = [] \<and>
        prefix (stages es) [MetadataDbInit, ContentStoreInit]"
  by (simp add: buildIndex_def initSociArtifactsDb_def initContainerdStore_def lib_defs Let_def
      split: option.splits sum.splits outcome.splits)

lemma buildIndex_new:
  "trace (snd (buildIndex env ctx dataDir st img w)) =
     trace w @ new_events w (snd (buildIndex env ctx dataDir st img w))"
  "removals (new_events w (snd (buildIndex env ctx dataDir st img w))) = []"
  "prefix (stages (new_events w (snd (buildIndex env ctx dataDir st img w))))
     [MetadataDbInit, ContentStoreInit]"
  using buildIndex_trace [of env ctx dataDir st img w] by (auto simp: new_events_def)

lemma deferred_dirs:
  "dirs (snd (process_deferred env ctx registry repo digest dataDir w)) = dirs w"
  by (simp add: process_deferred_def case_prod_beta initSociStore_def lib_defs lambdaError_def
      returns_def Let_def buildIndex_dirs
      split: option.splits sum.splits outcome.splits)

lemma deferred_trace:
  "\<exists>es. trace (snd (process_deferred env ctx registry repo digest dataDir w)) = trace w @ es \<and>
        removals es = [] \<and>
        prefix (stages es) [ArtifactStoreInit, PullImage, MetadataDbInit, ContentStoreInit]"
  by (simp add: process_deferred_def case_prod_beta initSociStore_def lib_defs lambdaError_def
      returns_def Let_def buildIndex_new
      split: option.splits sum.splits outcome.splits)

lemma deferred_new:
  "trace (snd (process_deferred env ctx registry repo digest dataDir w)) =
     trace w @ new_events w (snd (process_deferred env ctx registry repo digest dataDir w))"
  "removals (new_events w (snd (process_deferred env ctx registry repo digest dataDir w))) = []"
  "prefix (stages (new_events w (snd (process_deferred env ctx registry repo digest dataDir w))))
     [ArtifactStoreInit, PullImage, MetadataDbInit, ContentStoreInit]"
  using deferred_trace [of env ctx registry repo digest dataDir w] by (auto simp: new_events_def)


lemma cleanUp_trace:
  "trace (cleanUp env ctx d w) =
     trace w @ [Log Info ctx (Sprintf ''Removing all files in %s'' [ArgStr d]) None, RemoveAll d] @
       (if d \<in> dirs w
        then (case RemoveAll_res env d of
                Some e \<Rightarrow> [Log Err ctx (Plain ''Clean up error'') (Some e)]
              | None \<Rightarrow> [])
        else [])"
  by (simp add: cleanUp_def lib_defs Let_def split: option.splits)

lemma cleanUp_dirs:
  "dirs (cleanUp env ctx d w) =
     (if d \<in> dirs w \<and> RemoveAll_res env d = None
      then Set.filter (\<lambda>x. \<not> below d x) (dirs w) else dirs w)"
  by (simp add: cleanUp_def lib_defs Let_def split: option.splits)

lemma fst_process_deferred:
  "fst (process_deferred env ctx registry repo digest dataDir w) =
    (let p = path_Join dataDir artifactsStoreName; st = SociStore p in
     case OciNewWithContext_res env p of
       Some e \<Rightarrow> Returns (''OCI storage initialization error'', Some e)
     | None \<Rightarrow>
     (case Pull_res env registry repo st digest of
       Inl e \<Rightarrow> Returns (''Image pull error'', Some e)
     | Inr desc \<Rightarrow>
       (case fst (buildIndex env ctx dataDir st \<lparr>Name = repo @ ''@'' @ digest, Target = desc\<rparr> w) of
          Panics q \<Rightarrow> Panics q
        | Returns (Inl e) \<Rightarrow> Returns (''SOCI index build error'', Some e)
        | Returns (Inr d) \<Rightarrow>
          (case Push_res env registry st d repo of
             Some e \<Rightarrow> Returns (''SOCI index push error'', Some e)
           | None \<Rightarrow> Returns (''Successfully built and pushed SOCI index'', None)))))"
  by (simp add: process_deferred_def case_prod_beta initSociStore_def lib_defs lambdaError_def
      returns_def Let_def fst_buildIndex
      split: option.splits sum.splits outcome.splits)

lemma fst_deferred_indep:
  "fst (process_deferred env ctx registry repo digest dataDir w) =
   fst (process_deferred env ctx registry repo digest dataDir w')"
  by (simp only: fst_process_deferred fst_buildIndex)

lemma fst_process:
  "fst (process env ctx repo digest region account w) =
    (let url = buildEcrRegistryUrl region account; reg = Registry url in
     case RegistryInit_res env url of
       Some e \<Rightarrow> Returns (''Remote registry initialization error'', Some e)
     | None \<Rightarrow>
     (case ValidateImageManifest_res env reg repo digest of
       Some e \<Rightarrow> Returns (''Exited early due to manifest validation error'', None)
     | None \<Rightarrow>
     (case MkdirTemp_res env ''/tmp'' ''TODO'' of
       Inl e \<Rightarrow> Returns (''Directory create error'', Some e)
     | Inr dataDir \<Rightarrow>
         fst (process_deferred env ((''RegistryURL'', url) # ctx) reg repo digest dataDir w))))"
  apply (simp add: process_def case_prod_beta createTempDir_def lib_defs lambdaError_def
      returns_def Let_def context_WithValue_def
      split: option.splits sum.splits)
  apply (intro allI impI)
  apply (rule fst_deferred_indep)
  done

lemma process_provisioned:
  assumes "RegistryInit_res env (buildEcrRegistryUrl region account) = None"
      and "ValidateImageManifest_res env (Registry (buildEcrRegistryUrl region account)) repo digest = None"
      and "MkdirTemp_res env ''/tmp'' ''TODO'' = Inr dataDir"
  shows "\<exists>w4 es. dataDir \<in> dirs w4 \<and>
           trace w4 = trace w @ RegistryInit (buildEcrRegistryUrl region account) # es \<and>
           removals es = [] \<and> stages es = [] \<and>
           snd (process env ctx repo digest region account w) =
             cleanUp env ((''RegistryURL'', buildEcrRegistryUrl region account) # ctx) dataDir
               (snd (process_deferred env ((''RegistryURL'', buildEcrRegistryUrl region account) # ctx)
                  (Registry (buildEcrRegistryUrl region account)) repo digest dataDir w4))"
proof -
  let ?url = "buildEcrRegistryUrl region account"
  let ?ctx = "(''RegistryURL'', ?url) # ctx"
  let ?es = "[ValidateImageManifest (Registry ?url) repo digest,
      CalculateFreeSpace ''/tmp'',
      Log Info ?ctx (Sprintf ''There are %d bytes of free space in /tmp directory''
        [ArgInt (CalculateFreeSpace_res env ''/tmp'')]) None,
      Log Info ?ctx (Plain ''Creating a directory to store images and SOCI artifacts'') None,
      MkdirTemp ''/tmp'' ''TODO'',
      Log Info ?ctx (Sprintf ''The path to the dataDir: %s'' [ArgStr dataDir]) None]"
  let ?w4 = "w\<lparr>dirs := insert dataDir (dirs w), trace := trace w @ RegistryInit ?url # ?es\<rparr>"
  have "snd (process env ctx repo digest region account w) =
          cleanUp env ?ctx dataDir
            (snd (process_deferred env ?ctx (Registry ?url) repo digest dataDir ?w4))"
    using assms
    by (simp add: process_def case_prod_beta createTempDir_def lib_defs Let_def context_WithValue_def)
  moreover have "dataDir \<in> dirs ?w4" "trace ?w4 = trace w @ RegistryInit ?url # ?es"
    "removals ?es = []" "stages ?es = []"
    by simp_all
  ultimately show ?thesis by blast
qed


lemma process_trace:
  "\<exists>es. trace (snd (process env ctx repo digest region account w)) =
          trace w @ RegistryInit (buildEcrRegistryUrl region account) # es \<and>
        prefix (stages es) [ArtifactStoreInit, PullImage, MetadataDbInit, ContentStoreInit]"
proof (cases "RegistryInit_res env (buildEcrRegistryUrl region account)")
  case (Some e)
  then show ?thesis
    by (simp add: process_def lib_defs lambdaError_def returns_def Let_def context_WithValue_def)
next
  case None
  note init = this
  show ?thesis
  proof (cases "ValidateImageManifest_res env (Registry (buildEcrRegistryUrl region account)) repo digest")
    case (Some e)
    with init show ?thesis
      by (simp add: process_def lib_defs Let_def context_WithValue_def)
  next
    case None
    note valid = this
    show ?thesis
    proof (cases "MkdirTemp_res env ''/tmp'' ''TODO''")
      case (Inl e)
      with init valid show ?thesis
        by (simp add: process_def createTempDir_def lib_defs lambdaError_def returns_def Let_def
            context_WithValue_def)
    next
      case (Inr dataDir)
      from process_provisioned [OF init valid Inr, of w ctx]
      obtain w4 es where w4: "trace w4 = trace w @ RegistryInit (buildEcrRegistryUrl region account) # es"
          "stages es = []"
        and p: "snd (process env ctx repo digest region account w) =
             cleanUp env ((''RegistryURL'', buildEcrRegistryUrl region account) # ctx) dataDir
               (snd (process_deferred env ((''RegistryURL'', buildEcrRegistryUrl region account) # ctx)
                  (Registry (buildEcrRegistryUrl region account)) repo digest dataDir w4))"
        by blast
      show ?thesis
        by (simp add: p cleanUp_trace deferred_new w4 split: option.splits)
    qed
  qed
qed

subsection \<open>The registry endpoint\<close>

lemma HasPrefix_prefix: "strings_HasPrefix s p = prefix p s"
  by (auto simp: strings_HasPrefix_def prefix_def) (metis append_take_drop_id)

text \<open>
  C6. \<open>buildEcrRegistryUrl\<close> is a function of the region and the account alone (it takes
  and returns no world): the account, \<open>.dkr.ecr.\<close>, the region, and then
  \<open>.amazonaws.com.cn\<close> exactly when the region starts with \<open>cn\<close>, \<open>.amazonaws.com\<close>
  otherwise. The two examples of the specification are computed.
\<close>

theorem buildEcrRegistryUrl_spec:
  "buildEcrRegistryUrl region account =
     account @ ''.dkr.ecr.'' @ region @
       (if prefix ''cn'' region then ''.amazonaws.com.cn'' else ''.amazonaws.com'')
   \<and> buildEcrRegistryUrl ''us-west-2'' ''123456789012'' =
       ''123456789012.dkr.ecr.us-west-2.amazonaws.com''
   \<and> buildEcrRegistryUrl ''cn-north-1'' ''123456789012'' =
       ''123456789012.dkr.ecr.cn-north-1.amazonaws.com.cn''"
  by (simp add: buildEcrRegistryUrl_def HasPrefix_prefix)

theorem buildEcrRegistryUrl_spec_witness:
  "buildEcrRegistryUrl ''cn'' ''1'' = ''1.dkr.ecr.cn.amazonaws.com.cn'' \<and>
   buildEcrRegistryUrl ''c'' ''1'' = ''1.dkr.ecr.c.amazonaws.com'' \<and>
   buildEcrRegistryUrl '''' '''' = ''.dkr.ecr..amazonaws.com''"
  using buildEcrRegistryUrl_spec [of "''cn''" "''1''"] buildEcrRegistryUrl_spec [of "''c''" "''1''"]
    buildEcrRegistryUrl_spec [of "''''" "''''"]
  by simp

subsection \<open>The early exits of \<open>process\<close>\<close>

text \<open>
  C1. Manifest validation is reached when the registry client was initialised. Whenever it
  then fails, with whatever error, \<open>process\<close> returns the message
  \<open>Exited early due to manifest validation error\<close> and a nil error.
\<close>

theorem process_validation_failure:
  assumes "RegistryInit_res env (buildEcrRegistryUrl region account) = None"
      and "ValidateImageManifest_res env (Registry (buildEcrRegistryUrl region account)) repo digest
             = Some verr"
  shows "fst (process env ctx repo digest region account w) =
           Returns (''Exited early due to manifest validation error'', None)"
  using assms by (simp add: process_def Let_def lib_defs)

theorem process_validation_failure_witness:
  "RegistryInit_res (env_ok\<lparr>ValidateImageManifest_res :=
        (\<lambda>r repo digest. Some (Error ''unsupported media type''))\<rparr>)
      (buildEcrRegistryUrl ''us-west-2'' ''123456789012'') = None \<and>
   ValidateImageManifest_res (env_ok\<lparr>ValidateImageManifest_res :=
        (\<lambda>r repo digest. Some (Error ''unsupported media type''))\<rparr>)
      (Registry (buildEcrRegistryUrl ''us-west-2'' ''123456789012'')) ''repo'' ''sha256:0'' =
      Some (Error ''unsupported media type'') \<and>
   fst (process (env_ok\<lparr>ValidateImageManifest_res :=
        (\<lambda>r repo digest. Some (Error ''unsupported media type''))\<rparr>)
          context_TODO ''repo'' ''sha256:0'' ''us-west-2'' ''123456789012'' world0) =
     Returns (''Exited early due to manifest validation error'', None)"
  using process_validation_failure [of
      "env_ok\<lparr>ValidateImageManifest_res := (\<lambda>r repo digest. Some (Error ''unsupported media type''))\<rparr>"
      "''us-west-2''" "''123456789012''" "''repo''" "''sha256:0''" "Error ''unsupported media type''"
      context_TODO world0]
  by (simp add: env_ok_def)

text \<open>
  C10. The first thing \<open>process\<close> does, on every run, is to initialise the registry
  client: the manifest is validated after that, if at all. When the initialisation fails,
  \<open>process\<close> returns \<open>Remote registry initialization error\<close> with that error, and all
  it has done is the failed call and the log of the error: the manifest was not validated,
  no directory was made and none removed, and the directories are as before.
\<close>

theorem process_registry_init_failure:
  "hd (new_events w (snd (process env ctx repo digest region account w))) =
     RegistryInit (buildEcrRegistryUrl region account) \<and>
   (\<forall>e. RegistryInit_res env (buildEcrRegistryUrl region account) = Some e \<longrightarrow>
      process env ctx repo digest region account w =
        (Returns (''Remote registry initialization error'', Some e),
         w\<lparr>trace := trace w @
            [RegistryInit (buildEcrRegistryUrl region account),
             Log Err ((''RegistryURL'', buildEcrRegistryUrl region account) # ctx)
               (Plain ''Remote registry initialization error'') (Some e)]\<rparr>))"
proof -
  from process_trace [of env ctx repo digest region account w]
  obtain es where "trace (snd (process env ctx repo digest region account w)) =
      trace w @ RegistryInit (buildEcrRegistryUrl region account) # es"
    by blast
  then have "new_events w (snd (process env ctx repo digest region account w)) =
      RegistryInit (buildEcrRegistryUrl region account) # es"
    by (rule new_eventsI)
  then have first: "hd (new_events w (snd (process env ctx repo digest region account w))) =
     RegistryInit (buildEcrRegistryUrl region account)"
    by simp
  show ?thesis
    using first by (simp add: prog_defs Let_def lib_defs)
qed

theorem process_registry_init_failure_witness:
  "RegistryInit_res (env_ok\<lparr>RegistryInit_res := (\<lambda>url. Some (Error ''no credentials''))\<rparr>)
      (buildEcrRegistryUrl ''us-west-2'' ''123456789012'') = Some (Error ''no credentials'') \<and>
   process (env_ok\<lparr>RegistryInit_res := (\<lambda>url. Some (Error ''no credentials''))\<rparr>)
      context_TODO ''repo'' ''sha256:0'' ''us-west-2'' ''123456789012'' world0 =
     (Returns (''Remote registry initialization error'', Some (Error ''no credentials'')),
      \<lparr>dirs = {}, trace =
         [RegistryInit ''123456789012.dkr.ecr.us-west-2.amazonaws.com'',
          Log Err [(''RegistryURL'', ''123456789012.dkr.ecr.us-west-2.amazonaws.com'')]
            (Plain ''Remote registry initialization error'') (Some (Error ''no credentials''))]\<rparr>) \<and>
   hd (new_events world0 (snd (process env_ok context_TODO ''repo'' ''sha256:0''
        ''us-west-2'' ''123456789012'' world0))) =
     RegistryInit ''123456789012.dkr.ecr.us-west-2.amazonaws.com''"
  using process_registry_init_failure [of world0
      "env_ok\<lparr>RegistryInit_res := (\<lambda>url. Some (Error ''no credentials''))\<rparr>"
      context_TODO "''repo''" "''sha256:0''" "''us-west-2''" "''123456789012''"]
    process_registry_init_failure [of world0 env_ok
      context_TODO "''repo''" "''sha256:0''" "''us-west-2''" "''123456789012''"]
  by (simp add: env_ok_def world0_def context_TODO_def buildEcrRegistryUrl_def strings_HasPrefix_def)

subsection \<open>The order of the storage handles\<close>

text \<open>
  On a run in which everything succeeds the artifact store is opened first, the metadata
  database second and the content store last, with the pull between the first and the
  second: not the order content store, artifact store, metadata database.
\<close>

theorem storage_init_order_counterexample:
  "storage_inits (new_events world0 (snd (process env_ok context_TODO ''repo'' ''sha256:0''
       ''us-west-2'' ''123456789012'' world0))) =
     [ArtifactStoreInit, MetadataDbInit, ContentStoreInit] \<and>
   storage_inits (new_events world0 (snd (process env_ok context_TODO ''repo'' ''sha256:0''
       ''us-west-2'' ''123456789012'' world0))) \<noteq>
     [ContentStoreInit, ArtifactStoreInit, MetadataDbInit] \<and>
   stages (new_events world0 (snd (process env_ok context_TODO ''repo'' ''sha256:0''
       ''us-west-2'' ''123456789012'' world0))) =
     [ArtifactStoreInit, PullImage, MetadataDbInit, ContentStoreInit]"
  by (simp add: eval_defs)

text \<open>
  C5, as the code has it. On every run the storage and pull steps are an initial part of: artifact
  store (opened by \<open>process\<close>), pull, metadata database, content store (the last two
  opened by \<open>buildIndex\<close>, after the pull). A failure to open any of the three is
  terminal: \<open>process\<close> returns it, under \<open>OCI storage initialization error\<close> for the
  artifact store and under \<open>SOCI index build error\<close> for the other two.
\<close>

theorem storage_init_order:
  "prefix (stages (new_events w (snd (process env ctx repo digest region account w))))
     [ArtifactStoreInit, PullImage, MetadataDbInit, ContentStoreInit] \<and>
   (let url = buildEcrRegistryUrl region account; reg = Registry url;
        r = fst (process env ctx repo digest region account w) in
    RegistryInit_res env url = None \<and> ValidateImageManifest_res env reg repo digest = None \<longrightarrow>
    (\<forall>dataDir. MkdirTemp_res env ''/tmp'' ''TODO'' = Inr dataDir \<longrightarrow>
      (let p = path_Join dataDir artifactsStoreName; dbp = path_Join dataDir artifactsDbName in
       (\<forall>e. OciNewWithContext_res env p = Some e \<longrightarrow>
            r = Returns (''OCI storage initialization error'', Some e)) \<and>
       (OciNewWithContext_res env p = None \<longrightarrow>
        (\<forall>desc. Pull_res env reg repo (SociStore p) digest = Inr desc \<longrightarrow>
          (\<forall>e. SociNewDB_res env dbp = Some e \<longrightarrow>
               r = Returns (''SOCI index build error'', Some e)) \<and>
          (SociNewDB_res env dbp = None \<longrightarrow>
           (\<forall>e. LocalNewStore_res env p = Some e \<longrightarrow>
                r = Returns (''SOCI index build error'', Some e))))))))"
proof -
  from process_trace [of env ctx repo digest region account w]
  obtain es where es: "trace (snd (process env ctx repo digest region account w)) =
      trace w @ RegistryInit (buildEcrRegistryUrl region account) # es"
    and pre: "prefix (stages es) [ArtifactStoreInit, PullImage, MetadataDbInit, ContentStoreInit]"
    by blast
  have "new_events w (snd (process env ctx repo digest region account w)) =
      RegistryInit (buildEcrRegistryUrl region account) # es"
    using es by (rule new_eventsI)
  with pre have first: "prefix (stages (new_events w (snd (process env ctx repo digest region account w))))
     [ArtifactStoreInit, PullImage, MetadataDbInit, ContentStoreInit]"
    by simp
  show ?thesis
    apply (rule conjI)
     apply (rule first)
    apply (auto simp add: fst_process fst_process_deferred fst_buildIndex Let_def)
    done
qed

theorem storage_init_order_witness:
  "RegistryInit_res env_db_fails (buildEcrRegistryUrl ''us-west-2'' ''123456789012'') = None \<and>
   MkdirTemp_res env_db_fails ''/tmp'' ''TODO'' = Inr ''/tmp/TODO1'' \<and>
   SociNewDB_res env_db_fails (path_Join ''/tmp/TODO1'' artifactsDbName) =
     Some (Error ''no space left on device'') \<and>
   prefix (stages (new_events world0 (snd (process env_db_fails context_TODO ''repo'' ''sha256:0''
       ''us-west-2'' ''123456789012'' world0))))
     [ArtifactStoreInit, PullImage, MetadataDbInit, ContentStoreInit] \<and>
   fst (process env_db_fails context_TODO ''repo'' ''sha256:0'' ''us-west-2'' ''123456789012'' world0) =
     Returns (''SOCI index build error'', Some (Error ''no space left on device''))"
  using storage_init_order [of world0 env_db_fails context_TODO "''repo''" "''sha256:0''"
      "''us-west-2''" "''123456789012''"]
  by (simp add: env_db_fails_def env_ok_def Let_def)

subsection \<open>The clean-up\<close>

text \<open>
  A run in which everything succeeds but the removal: the workspace was provisioned,
  \<open>process\<close> reports success, and the workspace directory is still there.
\<close>

theorem cleanup_removes_workspace_counterexample:
  "RegistryInit_res env_remove_fails (buildEcrRegistryUrl ''us-west-2'' ''123456789012'') = None \<and>
   ValidateImageManifest_res env_remove_fails
     (Registry (buildEcrRegistryUrl ''us-west-2'' ''123456789012'')) ''repo'' ''sha256:0'' = None \<and>
   MkdirTemp_res env_remove_fails ''/tmp'' ''TODO'' = Inr ''/tmp/TODO1'' \<and>
   fst (process env_remove_fails context_TODO ''repo'' ''sha256:0'' ''us-west-2'' ''123456789012'' world0) =
     Returns (''Successfully built and pushed SOCI index'', None) \<and>
   ''/tmp/TODO1'' \<in> dirs (snd (process env_remove_fails context_TODO ''repo'' ''sha256:0''
       ''us-west-2'' ''123456789012'' world0))"
  by (simp add: eval_defs)

text \<open>
  With a \<open>sort.Slice\<close> that keeps the length of the slice, as the library's does, the
  read of the last element in \<open>buildIndex\<close> is in range: \<open>process\<close> always returns, and
  its exit paths are the success and the terminal failures.
\<close>

lemma buildIndex_returns:
  assumes "\<forall>xs. length (sort_Slice_res env (\<lambda>i j. time_Before (CreatedAt i) (CreatedAt j)) xs) =
             length xs"
  shows "fst (buildIndex env ctx dataDir st img w) \<noteq> Panics p"
proof -
  have idx: "\<exists>x. slice_index (sort_Slice_res env (\<lambda>i j. time_Before (CreatedAt i) (CreatedAt j)) xs)
        (int (length (sort_Slice_res env (\<lambda>i j. time_Before (CreatedAt i) (CreatedAt j)) xs)) - 1) =
      Returns x" if "xs \<noteq> []" for xs
    using that assms by (cases xs) (simp_all add: slice_index_def)
  show ?thesis
    by (auto simp add: fst_buildIndex Let_def split: option.splits sum.splits outcome.splits
        dest!: idx)
qed

lemma process_returns:
  assumes "\<forall>xs. length (sort_Slice_res env (\<lambda>i j. time_Before (CreatedAt i) (CreatedAt j)) xs) =
             length xs"
  shows "\<exists>r. fst (process env ctx repo digest region account w) = Returns r"
  using buildIndex_returns [OF assms]
  by (auto simp add: fst_process fst_process_deferred Let_def
      split: option.splits sum.splits outcome.splits)

text \<open>
  C2, as the code has it. Whenever the workspace was provisioned, the clean-up runs before
  \<open>process\<close> returns, on every exit path after provisioning (success and every terminal
  failure): the removal of the workspace directory is called exactly once, as the last call
  \<open>process\<close> makes. When the removal succeeds, the directory does not exist afterwards.
  When the removal fails, only the log of that failure follows it.
\<close>

theorem cleanup_runs_on_every_exit:
  assumes init: "RegistryInit_res env (buildEcrRegistryUrl region account) = None"
      and valid: "ValidateImageManifest_res env (Registry (buildEcrRegistryUrl region account)) repo digest = None"
      and mk: "MkdirTemp_res env ''/tmp'' ''TODO'' = Inr dataDir"
  shows "removals (new_events w (snd (process env ctx repo digest region account w))) = [dataDir] \<and>
         (RemoveAll_res env dataDir = None \<longrightarrow>
            last (new_events w (snd (process env ctx repo digest region account w))) = RemoveAll dataDir \<and>
            dataDir \<notin> dirs (snd (process env ctx repo digest region account w))) \<and>
         (\<forall>e. RemoveAll_res env dataDir = Some e \<longrightarrow>
            last (new_events w (snd (process env ctx repo digest region account w))) =
              Log Err ((''RegistryURL'', buildEcrRegistryUrl region account) # ctx)
                (Plain ''Clean up error'') (Some e) \<and>
            last (butlast (new_events w (snd (process env ctx repo digest region account w)))) =
              RemoveAll dataDir)"
proof -
  let ?ctx = "(''RegistryURL'', buildEcrRegistryUrl region account) # ctx"
  from process_provisioned [OF init valid mk, of w ctx]
  obtain w4 es where w4: "dataDir \<in> dirs w4"
      "trace w4 = trace w @ RegistryInit (buildEcrRegistryUrl region account) # es" "removals es = []"
    and p: "snd (process env ctx repo digest region account w) =
             cleanUp env ?ctx dataDir
               (snd (process_deferred env ?ctx (Registry (buildEcrRegistryUrl region account))
                  repo digest dataDir w4))"
    by blast
  let ?w5 = "snd (process_deferred env ?ctx (Registry (buildEcrRegistryUrl region account))
                  repo digest dataDir w4)"
  let ?tl = "case RemoveAll_res env dataDir of
               Some e \<Rightarrow> [Log Err ?ctx (Plain ''Clean up error'') (Some e)] | None \<Rightarrow> []"
  have "trace (snd (process env ctx repo digest region account w)) =
          trace w @ (RegistryInit (buildEcrRegistryUrl region account) # es @ new_events w4 ?w5 @
            [Log Info ?ctx (Sprintf ''Removing all files in %s'' [ArgStr dataDir]) None,
             RemoveAll dataDir] @ ?tl)"
    by (simp add: p cleanUp_trace deferred_new deferred_dirs w4)
  then have new: "new_events w (snd (process env ctx repo digest region account w)) =
          RegistryInit (buildEcrRegistryUrl region account) # es @ new_events w4 ?w5 @
            [Log Info ?ctx (Sprintf ''Removing all files in %s'' [ArgStr dataDir]) None,
             RemoveAll dataDir] @ ?tl"
    by (rule new_eventsI)
  have gone: "RemoveAll_res env dataDir = None \<Longrightarrow>
      dataDir \<notin> dirs (snd (process env ctx repo digest region account w))"
    by (simp add: p cleanUp_dirs deferred_dirs w4 below_def)
  show ?thesis
    using gone by (auto simp add: new deferred_new w4 butlast_append split: option.splits)
qed

theorem cleanup_runs_on_every_exit_witness:
  "RegistryInit_res env_ok (buildEcrRegistryUrl ''us-west-2'' ''123456789012'') = None \<and>
   ValidateImageManifest_res env_ok
     (Registry (buildEcrRegistryUrl ''us-west-2'' ''123456789012'')) ''repo'' ''sha256:0'' = None \<and>
   MkdirTemp_res env_ok ''/tmp'' ''TODO'' = Inr ''/tmp/TODO1'' \<and>
   RemoveAll_res env_ok ''/tmp/TODO1'' = None \<and>
   removals (new_events world0 (snd (process env_ok context_TODO ''repo'' ''sha256:0''
       ''us-west-2'' ''123456789012'' world0))) = [''/tmp/TODO1''] \<and>
   last (new_events world0 (snd (process env_ok context_TODO ''repo'' ''sha256:0''
       ''us-west-2'' ''123456789012'' world0))) = RemoveAll ''/tmp/TODO1'' \<and>
   ''/tmp/TODO1'' \<notin> dirs (snd (process env_ok context_TODO ''repo'' ''sha256:0''
       ''us-west-2'' ''123456789012'' world0))"
  using cleanup_runs_on_every_exit [of env_ok "''us-west-2''" "''123456789012''" "''repo''"
      "''sha256:0''" "''/tmp/TODO1''" world0 context_TODO]
  by (simp add: env_ok_def)

text \<open>
  C8. \<open>cleanUp\<close> returns nothing but the world: it has no error to hand to its caller.
  On a directory that does not exist it changes no directory and logs no error, whatever the
  environment; run twice, it leaves the directories as after the first run; and what
  \<open>process\<close> returns does not depend on how the removal ends. When the removal of an
  existing directory fails, \<open>cleanUp\<close> logs that very error as \<open>Clean up error\<close>, right
  after the removal, and does nothing else; when it succeeds, the directory is gone and no
  error is logged.
\<close>

theorem cleanUp_idempotent_never_escalates:
  "(d \<notin> dirs w \<longrightarrow>
      dirs (cleanUp env ctx d w) = dirs w \<and>
      new_events w (cleanUp env ctx d w) =
        [Log Info ctx (Sprintf ''Removing all files in %s'' [ArgStr d]) None, RemoveAll d]) \<and>
   dirs (cleanUp env ctx d (cleanUp env ctx d w)) = dirs (cleanUp env ctx d w) \<and>
   fst (process (env\<lparr>RemoveAll_res := f\<rparr>) ctx' repo digest region account w') =
     fst (process env ctx' repo digest region account w') \<and>
   (\<forall>e. d \<in> dirs w \<and> RemoveAll_res env d = Some e \<longrightarrow>
      dirs (cleanUp env ctx d w) = dirs w \<and>
      new_events w (cleanUp env ctx d w) =
        [Log Info ctx (Sprintf ''Removing all files in %s'' [ArgStr d]) None, RemoveAll d,
         Log Err ctx (Plain ''Clean up error'') (Some e)]) \<and>
   (d \<in> dirs w \<and> RemoveAll_res env d = None \<longrightarrow>
      d \<notin> dirs (cleanUp env ctx d w) \<and>
      new_events w (cleanUp env ctx d w) =
        [Log Info ctx (Sprintf ''Removing all files in %s'' [ArgStr d]) None, RemoveAll d])"
proof -
  have a: "d \<notin> dirs w \<Longrightarrow> new_events w (cleanUp env ctx d w) =
        [Log Info ctx (Sprintf ''Removing all files in %s'' [ArgStr d]) None, RemoveAll d]"
    by (rule new_eventsI) (simp add: cleanUp_trace)
  have b: "dirs (cleanUp env ctx d (cleanUp env ctx d w)) = dirs (cleanUp env ctx d w)"
    by (simp add: cleanUp_dirs below_def)
  have c: "fst (process (env\<lparr>RemoveAll_res := f\<rparr>) ctx' repo digest region account w') =
     fst (process env ctx' repo digest region account w')"
    by (simp add: fst_process fst_process_deferred fst_buildIndex Let_def
        cong: option.case_cong sum.case_cong outcome.case_cong if_cong)
  have logged: "d \<in> dirs w \<Longrightarrow> RemoveAll_res env d = Some e \<Longrightarrow>
      new_events w (cleanUp env ctx d w) =
        [Log Info ctx (Sprintf ''Removing all files in %s'' [ArgStr d]) None, RemoveAll d,
         Log Err ctx (Plain ''Clean up error'') (Some e)]" for e
    by (rule new_eventsI) (simp add: cleanUp_trace)
  have removed: "d \<in> dirs w \<Longrightarrow> RemoveAll_res env d = None \<Longrightarrow>
      new_events w (cleanUp env ctx d w) =
        [Log Info ctx (Sprintf ''Removing all files in %s'' [ArgStr d]) None, RemoveAll d]"
    by (rule new_eventsI) (simp add: cleanUp_trace)
  show ?thesis using a b c logged removed by (simp add: cleanUp_dirs below_def)
qed

theorem cleanUp_idempotent_never_escalates_witness:
  "''/tmp/TODO1'' \<notin> dirs world0 \<and>
   dirs (cleanUp env_remove_fails context_TODO ''/tmp/TODO1'' world0) = dirs world0 \<and>
   new_events world0 (cleanUp env_remove_fails context_TODO ''/tmp/TODO1'' world0) =
     [Log Info context_TODO (Sprintf ''Removing all files in %s'' [ArgStr ''/tmp/TODO1'']) None,
      RemoveAll ''/tmp/TODO1''] \<and>
   fst (process env_remove_fails context_TODO ''repo'' ''sha256:0'' ''us-west-2'' ''123456789012'' world0) =
     fst (process env_ok context_TODO ''repo'' ''sha256:0'' ''us-west-2'' ''123456789012'' world0) \<and>
   ''/tmp/TODO1'' \<in> dirs (world0\<lparr>dirs := {''/tmp/TODO1''}\<rparr>) \<and>
   RemoveAll_res env_remove_fails ''/tmp/TODO1'' = Some (Error ''permission denied'') \<and>
   dirs (cleanUp env_remove_fails context_TODO ''/tmp/TODO1'' (world0\<lparr>dirs := {''/tmp/TODO1''}\<rparr>)) =
     {''/tmp/TODO1''} \<and>
   new_events (world0\<lparr>dirs := {''/tmp/TODO1''}\<rparr>)
       (cleanUp env_remove_fails context_TODO ''/tmp/TODO1'' (world0\<lparr>dirs := {''/tmp/TODO1''}\<rparr>)) =
     [Log Info context_TODO (Sprintf ''Removing all files in %s'' [ArgStr ''/tmp/TODO1'']) None,
      RemoveAll ''/tmp/TODO1'',
      Log Err context_TODO (Plain ''Clean up error'') (Some (Error ''permission denied''))] \<and>
   RemoveAll_res env_ok ''/tmp/TODO1'' = None \<and>
   ''/tmp/TODO1'' \<notin> dirs (cleanUp env_ok context_TODO ''/tmp/TODO1'' (world0\<lparr>dirs := {''/tmp/TODO1''}\<rparr>))"
  using cleanUp_idempotent_never_escalates [of "''/tmp/TODO1''" world0 env_remove_fails context_TODO]
    cleanUp_idempotent_never_escalates [of "''/tmp/TODO1''" "world0\<lparr>dirs := {''/tmp/TODO1''}\<rparr>"
      env_remove_fails context_TODO]
    cleanUp_idempotent_never_escalates [of "''/tmp/TODO1''" "world0\<lparr>dirs := {''/tmp/TODO1''}\<rparr>"
      env_ok context_TODO]
    cleanUp_idempotent_never_escalates [of "''/tmp/TODO1''" world0 env_ok context_TODO
      "\<lambda>p. Some (Error ''permission denied'')" context_TODO "''repo''" "''sha256:0''"
      "''us-west-2''" "''123456789012''" world0]
  by (simp add: world0_def env_remove_fails_def env_ok_def)

subsection \<open>The selection of the index\<close>

lemma sorted_last_greatest:
  fixes key :: "'a \<Rightarrow> int"
  assumes "sorted_wrt (\<lambda>a b. \<not> key b < key a) s" and "x \<in> set s"
  shows "key x \<le> key (last s)"
  using assms
proof (induction s)
  case Nil
  then show ?case by simp
next
  case (Cons a s)
  show ?case
  proof (cases "s = []")
    case True
    with Cons.prems show ?thesis by simp
  next
    case False
    then have l: "last s \<in> set s" "last (a # s) = last s" by simp_all
    from Cons.prems have sorted: "sorted_wrt (\<lambda>a b. \<not> key b < key a) s"
      and first: "\<forall>y \<in> set s. \<not> key y < key a" by simp_all
    show ?thesis
    proof (cases "x = a")
      case True
      with first l show ?thesis by (simp add: not_less)
    next
      case False
      with Cons.prems have "x \<in> set s" by simp
      with sorted have "key x \<le> key (last s)" by (rule Cons.IH)
      with l show ?thesis by simp
    qed
  qed
qed

lemma slice_index_last: "s \<noteq> [] \<Longrightarrow> slice_index s (int (length s) - 1) = Returns (last s)"
  by (cases s rule: rev_cases) (auto simp: slice_index_def nth_append)

text \<open>
  C3. Let \<open>buildIndex\<close> reach the listing of the recorded descriptors, and let
  \<open>sort.Slice\<close> do what it promises on that list. If the creation timestamps are
  pairwise distinct, then: on the empty list \<open>buildIndex\<close> returns the error
  \<open>No SOCI indices found in OCI store\<close>; on a one-element list it returns that element's
  descriptor; on any non-empty list it returns the descriptor of the element whose
  timestamp is greater than every other one's; and it never panics.
\<close>

theorem buildIndex_selects_latest:
  assumes db: "SociNewDB_res env (path_Join dataDir artifactsDbName) = None"
    and cs: "LocalNewStore_res env (path_Join dataDir artifactsStoreName) = None"
    and nb: "NewIndexBuilder_res env (ContentStore (path_Join dataDir artifactsStoreName)) sociStore
               (ArtifactsDb (path_Join dataDir artifactsDbName)) = None"
    and bd: "Build_res env img = None"
    and gt: "GetIndexDescriptorCollection_res env (ContentStore (path_Join dataDir artifactsStoreName))
               (ArtifactsDb (path_Join dataDir artifactsDbName)) img [DefaultSpec_res env] = Inr infos"
    and srt: "sorts (\<lambda>i j. time_Before (CreatedAt i) (CreatedAt j)) infos
               (sort_Slice_res env (\<lambda>i j. time_Before (CreatedAt i) (CreatedAt j)) infos)"
    and dist: "distinct (map CreatedAt infos)"
  shows "(infos = [] \<longrightarrow> fst (buildIndex env ctx dataDir sociStore img w) =
            Returns (Inl (Error ''No SOCI indices found in OCI store''))) \<and>
         (\<forall>x. infos = [x] \<longrightarrow>
            fst (buildIndex env ctx dataDir sociStore img w) = Returns (Inr (Descriptor x))) \<and>
         (infos \<noteq> [] \<longrightarrow>
            (\<exists>m \<in> set infos.
               fst (buildIndex env ctx dataDir sociStore img w) = Returns (Inr (Descriptor m)) \<and>
               (\<forall>x \<in> set infos. x \<noteq> m \<longrightarrow> CreatedAt x < CreatedAt m))) \<and>
         (\<forall>p. fst (buildIndex env ctx dataDir sociStore img w) \<noteq> Panics p)"
proof -
  let ?s = "sort_Slice_res env (\<lambda>i j. time_Before (CreatedAt i) (CreatedAt j)) infos"
  let ?r = "fst (buildIndex env ctx dataDir sociStore img w)"
  have empty: "infos = [] \<Longrightarrow> ?r = Returns (Inl (Error ''No SOCI indices found in OCI store''))"
    using db cs nb bd gt by (simp add: fst_buildIndex Let_def)
  have ms: "mset ?s = mset infos" and sw: "sorted_wrt (\<lambda>a b. \<not> CreatedAt b < CreatedAt a) ?s"
    using srt by (simp_all add: sorts_def time_Before_def)
  have sets: "set ?s = set infos" using ms by (rule mset_eq_setD)
  have nonempty: "infos \<noteq> [] \<Longrightarrow> ?r = Returns (Inr (Descriptor (last ?s)))"
  proof -
    assume ne: "infos \<noteq> []"
    with ms have "?s \<noteq> []" by auto
    then have "slice_index ?s (int (length ?s) - 1) = Returns (last ?s)" by (rule slice_index_last)
    with ne db cs nb bd gt show ?thesis by (simp add: fst_buildIndex Let_def)
  qed
  have last_in: "infos \<noteq> [] \<Longrightarrow> last ?s \<in> set infos"
  proof -
    assume "infos \<noteq> []"
    with ms have "?s \<noteq> []" by auto
    then have "last ?s \<in> set ?s" by simp
    with sets show ?thesis by simp
  qed
  have greatest: "CreatedAt x < CreatedAt (last ?s)" if "x \<in> set infos" "x \<noteq> last ?s" for x
  proof -
    from that have ne: "infos \<noteq> []" by auto
    from that sets have "x \<in> set ?s" by simp
    with sw have le: "CreatedAt x \<le> CreatedAt (last ?s)" by (rule sorted_last_greatest)
    from dist have "inj_on CreatedAt (set infos)" by (simp add: distinct_map)
    with that last_in [OF ne] have "CreatedAt x \<noteq> CreatedAt (last ?s)" by (auto dest: inj_onD)
    with le show ?thesis by simp
  qed
  have single: "infos = [x] \<Longrightarrow> ?r = Returns (Inr (Descriptor x))" for x
  proof -
    assume x: "infos = [x]"
    with ms have "?s = [x]" by simp
    with nonempty x show ?thesis by simp
  qed
  have no_panic: "?r \<noteq> Panics p" for p
    using empty nonempty by (cases "infos = []") simp_all
  show ?thesis
    using empty single nonempty last_in greatest no_panic by blast
qed

theorem buildIndex_selects_latest_witness:
  "sorts (\<lambda>i j. time_Before (CreatedAt i) (CreatedAt j)) [index_new, index_old]
     (sort_Slice_res env_ok (\<lambda>i j. time_Before (CreatedAt i) (CreatedAt j)) [index_new, index_old]) \<and>
   distinct (map CreatedAt [index_new, index_old]) \<and>
   fst (buildIndex env_ok context_TODO ''/tmp/TODO1'' (SociStore ''/tmp/TODO1/store'')
          \<lparr>Name = ''repo@sha256:0'', Target = Descriptor index_old\<rparr> world0) =
     Returns (Inr (Descriptor index_new)) \<and>
   CreatedAt index_old < CreatedAt index_new"
proof -
  have s: "sorts (\<lambda>i j. time_Before (CreatedAt i) (CreatedAt j)) [index_new, index_old]
     (sort_Slice_res env_ok (\<lambda>i j. time_Before (CreatedAt i) (CreatedAt j)) [index_new, index_old])"
    by (simp add: sorts_def env_ok_def insertion_sort_def time_Before_def index_new_def index_old_def)
  have d: "distinct (map CreatedAt [index_new, index_old])"
    by (simp add: index_new_def index_old_def)
  have ne: "index_old \<noteq> index_new" by (simp add: index_new_def index_old_def)
  from buildIndex_selects_latest [of env_ok "''/tmp/TODO1''" "SociStore ''/tmp/TODO1/store''"
      "\<lparr>Name = ''repo@sha256:0'', Target = Descriptor index_old\<rparr>" "[index_new, index_old]"
      context_TODO world0, OF _ _ _ _ _ s d]
  have "\<exists>m \<in> {index_new, index_old}.
      fst (buildIndex env_ok context_TODO ''/tmp/TODO1'' (SociStore ''/tmp/TODO1/store'')
          \<lparr>Name = ''repo@sha256:0'', Target = Descriptor index_old\<rparr> world0) =
        Returns (Inr (Descriptor m)) \<and>
      (\<forall>x \<in> {index_new, index_old}. x \<noteq> m \<longrightarrow> CreatedAt x < CreatedAt m)"
    by (simp add: env_ok_def)
  then have "fst (buildIndex env_ok context_TODO ''/tmp/TODO1'' (SociStore ''/tmp/TODO1/store'')
          \<lparr>Name = ''repo@sha256:0'', Target = Descriptor index_old\<rparr> world0) =
     Returns (Inr (Descriptor index_new)) \<and> CreatedAt index_old < CreatedAt index_new"
    using ne by (auto simp: index_new_def index_old_def)
  with s d show ?thesis by simp
qed

subsection \<open>The outcomes of \<open>process\<close>\<close>

text \<open>
  C7. Stage by stage: when the registry client, the workspace, the artifact store, the
  pull, one of the steps of \<open>buildIndex\<close> or the push fails, \<open>process\<close> returns the
  message of that stage together with the very error the failing call returned; when the
  builder recorded no descriptor it returns the error \<open>buildIndex\<close> makes for that. When
  nothing fails it returns the success message and a nil error. A nil error comes only with
  the success message or with the message of the early exit, so the three outcomes differ.
\<close>

theorem process_fault_error_verbatim:
  "(let url = buildEcrRegistryUrl region account; reg = Registry url;
        r = fst (process env ctx repo digest region account w) in
    (\<forall>m. r = Returns (m, None) \<longrightarrow>
       m = ''Successfully built and pushed SOCI index'' \<or>
       m = ''Exited early due to manifest validation error'') \<and>
    (\<forall>e. RegistryInit_res env url = Some e \<longrightarrow>
       r = Returns (''Remote registry initialization error'', Some e)) \<and>
    (RegistryInit_res env url = None \<and> ValidateImageManifest_res env reg repo digest = None \<longrightarrow>
     (\<forall>e. MkdirTemp_res env ''/tmp'' ''TODO'' = Inl e \<longrightarrow>
        r = Returns (''Directory create error'', Some e)) \<and>
     (\<forall>dataDir. MkdirTemp_res env ''/tmp'' ''TODO'' = Inr dataDir \<longrightarrow>
       (let p = path_Join dataDir artifactsStoreName; st = SociStore p in
        (\<forall>e. OciNewWithContext_res env p = Some e \<longrightarrow>
           r = Returns (''OCI storage initialization error'', Some e)) \<and>
        (OciNewWithContext_res env p = None \<longrightarrow>
         (\<forall>e. Pull_res env reg repo st digest = Inl e \<longrightarrow>
            r = Returns (''Image pull error'', Some e)) \<and>
         (\<forall>desc. Pull_res env reg repo st digest = Inr desc \<longrightarrow>
           (let img = \<lparr>Name = repo @ ''@'' @ digest, Target = desc\<rparr>;
                dbp = path_Join dataDir artifactsDbName;
                cs = ContentStore p; db = ArtifactsDb dbp in
            (\<forall>e. SociNewDB_res env dbp = Some e \<longrightarrow>
               r = Returns (''SOCI index build error'', Some e)) \<and>
            (SociNewDB_res env dbp = None \<longrightarrow>
             (\<forall>e. LocalNewStore_res env p = Some e \<longrightarrow>
                r = Returns (''SOCI index build error'', Some e)) \<and>
             (LocalNewStore_res env p = None \<longrightarrow>
              (\<forall>e. NewIndexBuilder_res env cs st db = Some e \<longrightarrow>
                 r = Returns (''SOCI index build error'', Some e)) \<and>
              (NewIndexBuilder_res env cs st db = None \<longrightarrow>
               (\<forall>e. Build_res env img = Some e \<longrightarrow>
                  r = Returns (''SOCI index build error'', Some e)) \<and>
               (Build_res env img = None \<longrightarrow>
                (\<forall>e. GetIndexDescriptorCollection_res env cs db img [DefaultSpec_res env] = Inl e \<longrightarrow>
                   r = Returns (''SOCI index build error'', Some e)) \<and>
                (GetIndexDescriptorCollection_res env cs db img [DefaultSpec_res env] = Inr [] \<longrightarrow>
                   r = Returns (''SOCI index build error'',
                         Some (Error ''No SOCI indices found in OCI store''))) \<and>
                (\<forall>d. fst (buildIndex env ((''RegistryURL'', url) # ctx) dataDir st img w) =
                       Returns (Inr d) \<longrightarrow>
                   (\<forall>e. Push_res env reg st d repo = Some e \<longrightarrow>
                      r = Returns (''SOCI index push error'', Some e)) \<and>
                   (Push_res env reg st d repo = None \<longrightarrow>
                      r = Returns (''Successfully built and pushed SOCI index'', None))))))))))))))"
  by (auto simp add: fst_process fst_process_deferred fst_buildIndex Let_def
      split: option.splits sum.splits outcome.splits)

theorem process_fault_error_verbatim_witness:
  "fst (process env_push_fails context_TODO ''repo'' ''sha256:0'' ''us-west-2'' ''123456789012'' world0) =
     Returns (''SOCI index push error'', Some (Error ''403 Forbidden'')) \<and>
   fst (process env_no_index context_TODO ''repo'' ''sha256:0'' ''us-west-2'' ''123456789012'' world0) =
     Returns (''SOCI index build error'', Some (Error ''No SOCI indices found in OCI store'')) \<and>
   fst (process env_db_fails context_TODO ''repo'' ''sha256:0'' ''us-west-2'' ''123456789012'' world0) =
     Returns (''SOCI index build error'', Some (Error ''no space left on device'')) \<and>
   fst (process env_ok context_TODO ''repo'' ''sha256:0'' ''us-west-2'' ''123456789012'' world0) =
     Returns (''Successfully built and pushed SOCI index'', None)"
  using process_fault_error_verbatim [of "''us-west-2''" "''123456789012''" env_push_fails context_TODO
      "''repo''" "''sha256:0''" world0]
    process_fault_error_verbatim [of "''us-west-2''" "''123456789012''" env_no_index context_TODO
      "''repo''" "''sha256:0''" world0]
    process_fault_error_verbatim [of "''us-west-2''" "''123456789012''" env_db_fails context_TODO
      "''repo''" "''sha256:0''" world0]
    process_fault_error_verbatim [of "''us-west-2''" "''123456789012''" env_ok context_TODO
      "''repo''" "''sha256:0''" world0]
  by (simp add: eval_defs env_push_fails_def env_no_index_def)

subsection \<open>The command line\<close>

text \<open>
  C4, at three arguments. \<open>os.Args\<close> holds the program's name and the three arguments:
  four entries, which the guard \<open>len(os.Args) < 4\<close> lets through. \<open>main\<close> then reads
  \<open>os.Args[4]\<close> and panics with an index out of range: the process ends with status 2,
  no usage line is printed, and nothing else was done.
\<close>

theorem main_three_arguments_panics:
  "main env [prog, repo, digest, region] w = (Panicked ''runtime error: index out of range'', w) \<and>
   exit_status (fst (main env [prog, repo, digest, region] w)) = 2 \<and>
   Println usage \<notin> set (new_events w (snd (main env [prog, repo, digest, region] w)))"
  by (simp add: main_def slice_index_def new_events_def)

text \<open>
  C9, at the same invocation. It passes the guard, yet \<open>process\<close> is never called and
  the exit status is not 0: \<open>main\<close> panics before.
\<close>

theorem main_guard_passed_process_not_run:
  "\<not> int (length [prog, repo, digest, region]) < 4 \<and>
   exit_status (fst (main env [prog, repo, digest, region] w)) \<noteq> 0 \<and>
   new_events w (snd (main env [prog, repo, digest, region] w)) = []"
  by (simp add: main_def slice_index_def new_events_def)

text \<open>
  What holds of \<open>main\<close> otherwise: with fewer than four entries in \<open>os.Args\<close> it
  prints the usage line and exits with status 1, having done nothing else; with five entries
  or more it runs \<open>process\<close> and, whatever message and error \<open>process\<close> returns, ends
  with status 0.
\<close>

lemma main_usage:
  "int (length Args) < 4 \<Longrightarrow> main env Args w = (Exited 1, w\<lparr>trace := trace w @ [Println usage]\<rparr>)"
  by (simp add: main_def lib_defs)

lemma main_discards_result:
  assumes "5 \<le> length Args"
    and "fst (process env context_TODO (Args ! 1) (Args ! 2) (Args ! 3) (Args ! 4) w) = Returns r"
  shows "fst (main env Args w) = Exited 0"
  using assms by (simp add: main_def slice_index_def case_prod_beta)

end
